theory Spec2Isabelle
  imports Main "HOL-Library.Word"
begin

section \<open>Shared vocabulary of the BLAS/LAPACK templates\<close>

text \<open>
  The enumerations that the routines pass to their kernels, with the names the
  sources use (\<open>Side::Right\<close>, \<open>Op::NoTrans\<close>, \<open>Direction::Forward\<close>,
  \<open>StoreV::Rowwise\<close>, \<open>Uplo::Lower\<close>).
\<close>

datatype Side = Left | Right

datatype Op = NoTrans | Trans | ConjTrans

datatype Direction = Forward | Backward

datatype StoreV = Columnwise | Rowwise

datatype Uplo = Upper | Lower | General

text \<open>
  A matrix view is known to the drivers only through its shape. \<open>nrows\<close> and
  \<open>ncols\<close> are the accessors of the matrix-view interface
  (\<open>x.extent(0)\<close> and \<open>x.extent(1)\<close> in the mdspan plugin).
\<close>

type_synonym shape = "nat \<times> nat"

definition nrows :: "shape \<Rightarrow> nat" where
  "nrows X = fst X"

definition ncols :: "shape \<Rightarrow> nat" where
  "ncols X = snd X"

section \<open>herk: the argument checks of the matrix-view overload\<close>

text \<open>
  The macro \<open>blas_error_if\<close> of \<open>blas/utils.hpp\<close> is not among the sources;
  as its name says, \<open>blas_error_if(cond)\<close> raises the error when \<open>cond\<close>
  holds. The three checks of the generic \<open>herk\<close> run in order before any
  entry of \<open>C\<close> is touched; the constructor records which of them raised.
  The documented contract is that \<open>C\<close> is \<open>n\<close>-by-\<open>n\<close>, and the pointer
  overload of the same file calls the generic one with such a \<open>C\<close>.
\<close>

datatype blas_error = Error_uplo | Error_trans | Error_shape

text \<open>\<open>const idx_t n = (trans == Op::NoTrans) ? nrows(A) : ncols(A)\<close>\<close>

definition herk_n :: "Op \<Rightarrow> shape \<Rightarrow> nat" where
  "herk_n tr A = (if tr = NoTrans then nrows A else ncols A)"

text \<open>\<open>const idx_t k = (trans == Op::NoTrans) ? ncols(A) : nrows(A)\<close>\<close>

definition herk_k :: "Op \<Rightarrow> shape \<Rightarrow> nat" where
  "herk_k tr A = (if tr = NoTrans then ncols A else nrows A)"

text \<open>
  The result is the error raised by the argument checks, or \<open>None\<close> when all
  three pass and the update loops start.
\<close>

definition herk_checks :: "Uplo \<Rightarrow> Op \<Rightarrow> shape \<Rightarrow> shape \<Rightarrow> blas_error option" where
  "herk_checks uplo tr A C =
     (let n = herk_n tr A in
      if uplo \<noteq> Lower \<and> uplo \<noteq> Upper \<and> uplo \<noteq> General then Some Error_uplo
      else if tr \<noteq> NoTrans \<and> tr \<noteq> ConjTrans then Some Error_trans
      else if nrows C = ncols C \<and> nrows C = n then Some Error_shape
      else None)"

section \<open>The argument checks of the LAPACK templates\<close>

text \<open>
  Modelled from the spec: the macros \<open>tlapack_check\<close> and
  \<open>tlapack_check_false\<close> of \<open>tlapack/base/utils.hpp\<close> are not among the
  sources. By the spec a failed check is a precondition violation, signalled
  at the check. \<open>tlapack_check_signals cond\<close> says that
  \<open>tlapack_check(cond)\<close> signals it (the condition is false), and
  \<open>tlapack_check_false_signals cond\<close> that \<open>tlapack_check_false(cond)\<close>
  does (the condition is true).
\<close>

datatype lapack_error = Precondition_violation

definition tlapack_check_signals :: "bool \<Rightarrow> bool" where
  "tlapack_check_signals cond = (\<not> cond)"

definition tlapack_check_false_signals :: "bool \<Rightarrow> bool" where
  "tlapack_check_false_signals cond = cond"

section \<open>ungl2: generating Q from the reflectors of an LQ factorization\<close>

text \<open>
  The index type \<open>idx_t\<close> of \<open>ungl2\<close> is a machine integer, and the routine
  relies on its wrap-around (\<open>t - 1\<close> for \<open>t = 0\<close>, the sentinel \<open>idx_t(-1)\<close>),
  so indices are words of an arbitrary width \<open>'i\<close>. The entries of \<open>Q\<close> are a
  function of the index pair; \<open>tauw\<close> is read by index.

  \<open>larf\<close> and \<open>scal\<close> are kernels of other files: they are parameters, applied
  to the views the routine builds (\<open>w = slice(Q, j, range(j, n))\<close> is the pair of
  the row and the column range, \<open>Q11 = slice(Q, range(j+1, k), range(j, n))\<close> the
  pair of the two ranges). \<open>conj\<close> is the conjugation of the element type. The
  workspace handed to \<open>larf\<close> is scratch storage of that kernel and is not part of
  the state. The entries are a total function, so a write outside the
  \<open>k\<close>-by-\<open>n\<close> range of \<open>Q\<close> (undefined in the source, possible only for
  \<open>k > n\<close>) is not detected here.
\<close>

record ('x, 'e) ungl2_kernels =
  larf :: "Side \<Rightarrow> Direction \<Rightarrow> StoreV \<Rightarrow> 'x \<times> ('x \<times> 'x) \<Rightarrow> 'e
             \<Rightarrow> ('x \<times> 'x) \<times> ('x \<times> 'x)
             \<Rightarrow> ('x \<times> 'x \<Rightarrow> 'e) \<Rightarrow> ('x \<times> 'x \<Rightarrow> 'e)"
  scal :: "'e \<Rightarrow> 'x \<times> ('x \<times> 'x) \<Rightarrow> ('x \<times> 'x \<Rightarrow> 'e) \<Rightarrow> ('x \<times> 'x \<Rightarrow> 'e)"
  conj :: "'e \<Rightarrow> 'e"

text \<open>
  \<open>for (idx_t i = a; i < b; ++i)\<close>: the indices of an ascending loop. The loop
  test \<open>i < b\<close> keeps \<open>++i\<close> from wrapping.
\<close>

definition idx_upto :: "'i::len word \<Rightarrow> 'i word \<Rightarrow> 'i word list" where
  "idx_upto a b = map of_nat [unat a..<unat b]"

text \<open>
  The initialisation of rows \<open>t:k-1\<close> to rows of the unit matrix, done when
  \<open>k > m\<close>.
\<close>

definition ungl2_init ::
  "'i::len word \<Rightarrow> 'i word \<Rightarrow> 'i word
     \<Rightarrow> ('i word \<times> 'i word \<Rightarrow> 'e::{zero,one}) \<Rightarrow> ('i word \<times> 'i word \<Rightarrow> 'e)" where
  "ungl2_init k n t Q =
     fold (\<lambda>j Q0.
             (let Q1 = fold (\<lambda>i Q'. Q'((i, j) := 0)) (idx_upto t k) Q0
              in if j < k \<and> j > t - 1 then Q1((j, j) := 1) else Q1))
          (idx_upto 0 n) Q"

text \<open>One pass through the body of the reverse loop, at index \<open>j\<close>.\<close>

definition ungl2_body ::
  "('i::len word, 'e::{zero,one,minus,uminus}) ungl2_kernels
     \<Rightarrow> 'i word \<Rightarrow> 'i word \<Rightarrow> 'i word \<Rightarrow> 'i word \<Rightarrow> ('i word \<Rightarrow> 'e)
     \<Rightarrow> 'i word \<Rightarrow> ('i word \<times> 'i word \<Rightarrow> 'e) \<Rightarrow> ('i word \<times> 'i word \<Rightarrow> 'e)" where
  "ungl2_body K k n m t tauw j Q =
     (let Q1 = (if j + 1 < n then
                  (let w = (j, (j, n));
                       Q' = (if (k > m \<and> j + 1 = t) \<or> (j + 1 < t)
                             then larf K Right Forward Rowwise w (conj K (tauw j))
                                    ((j + 1, k), (j, n)) Q
                             else Q)
                   in scal K (- conj K (tauw j)) w Q')
                else Q);
          Q2 = Q1((j, j) := 1 - conj K (tauw j))
      in fold (\<lambda>l Q'. Q'((j, l) := 0)) (idx_upto 0 j) Q2)"

text \<open>
  \<open>for (idx_t j = t - 1; j != idx_t(-1); --j)\<close>: the test compares with the
  all-ones word, the decrement is the word subtraction.
\<close>

function ungl2_loop ::
  "('i::len word, 'e::{zero,one,minus,uminus}) ungl2_kernels
     \<Rightarrow> 'i word \<Rightarrow> 'i word \<Rightarrow> 'i word \<Rightarrow> 'i word \<Rightarrow> ('i word \<Rightarrow> 'e)
     \<Rightarrow> 'i word \<Rightarrow> ('i word \<times> 'i word \<Rightarrow> 'e) \<Rightarrow> ('i word \<times> 'i word \<Rightarrow> 'e)" where
  "ungl2_loop K k n m t tauw j Q =
     (if j \<noteq> - 1 then ungl2_loop K k n m t tauw (j - 1) (ungl2_body K k n m t tauw j Q)
      else Q)"
  by pat_completeness auto
termination
proof (relation "measure (\<lambda>(K, k, n, m, t, tauw, j, Q). unat (j + 1))")
  show "wf (measure (\<lambda>(K, k, n, m, t, tauw, j, Q). unat (j + 1)))"
    by simp
next
  fix K :: "('i::len word, 'e::{zero,one,minus,uminus}) ungl2_kernels"
  fix k n m t :: "'i word" and tauw :: "'i word \<Rightarrow> 'e" and j :: "'i word"
  fix Q :: "'i word \<times> 'i word \<Rightarrow> 'e"
  assume "j \<noteq> - 1"
  then have "\<not> j + 1 \<le> j"
    by (simp add: inc_less_eq_self_iff_eq)
  then have "unat j < unat (j + 1)"
    by (simp add: word_le_nat_alt)
  then show "((K, k, n, m, t, tauw, j - 1, ungl2_body K k n m t tauw j Q),
              (K, k, n, m, t, tauw, j, Q))
             \<in> measure (\<lambda>(K, k, n, m, t, tauw, j, Q). unat (j + 1))"
    by simp
qed

declare ungl2_loop.simps [simp del]

text \<open>
  The argument check of the routine, which binds \<open>m = size(tauw)\<close> and runs
  \<open>tlapack_check_false((idx_t)size(tauw) < min(m, n))\<close>.
\<close>

definition ungl2_check_fails :: "'i::len word \<Rightarrow> 'i word \<Rightarrow> bool" where
  "ungl2_check_fails size_tauw n =
     (let m = size_tauw in tlapack_check_false_signals (size_tauw < min m n))"

text \<open>
  The whole routine: \<open>Q\<close> is \<open>k\<close>-by-\<open>n\<close> with entries \<open>Q\<close>, \<open>tauw\<close> has
  \<open>size_tauw\<close> entries. It returns the status \<open>0\<close> with the new entries of
  \<open>Q\<close>, or the error with the entries as they were when it was raised.
\<close>

definition ungl2 ::
  "('i::len word, 'e::{zero,one,minus,uminus}) ungl2_kernels
     \<Rightarrow> 'i word \<Rightarrow> 'i word \<Rightarrow> ('i word \<times> 'i word \<Rightarrow> 'e) \<Rightarrow> 'i word \<Rightarrow> ('i word \<Rightarrow> 'e)
     \<Rightarrow> lapack_error \<times> ('i word \<times> 'i word \<Rightarrow> 'e) + int \<times> ('i word \<times> 'i word \<Rightarrow> 'e)" where
  "ungl2 K k n Q size_tauw tauw =
     (let m = size_tauw;
          t = min k m
      in if ungl2_check_fails size_tauw n then Inl (Precondition_violation, Q)
         else
           (let Q0 = (if k > m then ungl2_init k n t Q else Q)
            in Inr (0, ungl2_loop K k n m t tauw (t - 1) Q0)))"

text \<open>The indices the reverse loop is meant to visit: \<open>t - 1\<close> down to \<open>0\<close>.\<close>

definition countdown :: "'i::len word \<Rightarrow> 'i word list" where
  "countdown t = rev (map of_nat [0..<unat t])"

section \<open>Index arithmetic and views of the blocked drivers\<close>

text \<open>
  The drivers \<open>gelqf\<close> and \<open>gerqf\<close> compute with \<open>idx_t = size_t\<close>, an
  unsigned 64-bit integer. Indices are natural numbers here. The sums the
  drivers form (\<open>j + ib\<close>, \<open>j + nb\<close>) are at most twice a dimension of a
  matrix that is held in memory and are far below \<open>2 ^ 64\<close>; they are plain
  sums. A difference is where an index error would show, so every subtraction
  of the sources is \<open>idx_sub\<close>, with the wrap-around of the unsigned type
  written out.
\<close>

definition idx_sub :: "nat \<Rightarrow> nat \<Rightarrow> nat" where
  "idx_sub a b = (if b \<le> a then a - b else a + 2 ^ 64 - b)"

text \<open>
  \<open>range\<close> is the half-open pair of the sources. A view of a matrix is known
  by its window: the row range and the column range it covers, in the
  coordinates of the underlying matrix. \<open>full\<close> is the window of a whole
  matrix, \<open>slice\<close> takes a window inside a window, \<open>transpose_view\<close> swaps
  the two dimensions of a shape.
\<close>

type_synonym range = "nat \<times> nat"

type_synonym window = "range \<times> range"

definition full :: "shape \<Rightarrow> window" where
  "full X = ((0, nrows X), (0, ncols X))"

definition slice :: "window \<Rightarrow> range \<Rightarrow> range \<Rightarrow> window" where
  "slice V r c =
     ((fst (fst V) + fst r, fst (fst V) + snd r), (fst (snd V) + fst c, fst (snd V) + snd c))"

definition transpose_view :: "shape \<Rightarrow> shape" where
  "transpose_view X = (ncols X, nrows X)"

section \<open>The environment of the drivers\<close>

text \<open>
  The drivers include \<open>tlapack/base/utils.hpp\<close>, \<open>gelq2.hpp\<close>, \<open>gerq2.hpp\<close>,
  \<open>larft.hpp\<close> and \<open>larfb.hpp\<close>, none of which is among the sources. What the
  drivers use of them is a parameter of the model:
  \<^item> the workspace queries of the kernels, and the type \<open>WorkInfo\<close> (\<open>'w\<close>)
    with its constructor \<open>WorkInfo(m, n)\<close>, its fields \<open>m\<close> and \<open>n\<close>, and
    its operations \<open>transpose()\<close>, \<open>minMax\<close> and \<open>+=\<close>;
  \<^item> the compile-time test \<open>is_same_v<T, type_t<matrixT_t>>\<close> for the \<open>T\<close>
    of the driver, the element type of \<open>A\<close>;
  \<^item> \<open>new_matrix\<close>, which yields the scratch storage (\<open>'scr\<close>) of a matrix of
    the given shape;
  \<^item> the kernels, which act on the entries of \<open>A\<close> and \<open>tau\<close> (\<open>'mem\<close>) and on
    the scratch through the views they are given. The block factor \<open>T\<close> is
    passed from \<open>larft\<close> to \<open>larfb\<close> through the scratch, so the scratch is
    part of what a kernel reads and writes.
  Following the spec (section 7: internal components trust their callers'
  index arithmetic, all checks happen at the entry of the driver), a kernel
  always returns.
\<close>

record ('mem, 'scr, 'w) lapack_env =
  gelq2_worksize :: "window \<Rightarrow> range \<Rightarrow> 'w"
  gerq2_worksize :: "window \<Rightarrow> range \<Rightarrow> 'w"
  larfb_worksize :: "Side \<Rightarrow> Op \<Rightarrow> Direction \<Rightarrow> StoreV \<Rightarrow> window \<Rightarrow> window \<Rightarrow> window \<Rightarrow> 'w"
  WorkInfo :: "nat \<Rightarrow> nat \<Rightarrow> 'w"
  wi_m :: "'w \<Rightarrow> nat"
  wi_n :: "'w \<Rightarrow> nat"
  wi_transpose :: "'w \<Rightarrow> 'w"
  wi_minMax :: "'w \<Rightarrow> 'w \<Rightarrow> 'w"
  wi_plus :: "'w \<Rightarrow> 'w \<Rightarrow> 'w"
  T_is_matrixT :: bool
  new_matrix :: "nat \<Rightarrow> nat \<Rightarrow> 'scr"
  gelq2 :: "window \<Rightarrow> range \<Rightarrow> shape \<Rightarrow> 'mem \<times> 'scr \<Rightarrow> 'mem \<times> 'scr"
  gerq2 :: "window \<Rightarrow> range \<Rightarrow> shape \<Rightarrow> 'mem \<times> 'scr \<Rightarrow> 'mem \<times> 'scr"
  larft :: "Direction \<Rightarrow> StoreV \<Rightarrow> window \<Rightarrow> range \<Rightarrow> window \<Rightarrow> 'mem \<times> 'scr \<Rightarrow> 'mem \<times> 'scr"
  larfb :: "Side \<Rightarrow> Op \<Rightarrow> Direction \<Rightarrow> StoreV \<Rightarrow> window \<Rightarrow> window \<Rightarrow> window \<Rightarrow> shape
              \<Rightarrow> 'mem \<times> 'scr \<Rightarrow> 'mem \<times> 'scr"

text \<open>
  The arguments of a call: the shape of \<open>A\<close>, the size of \<open>tau\<close>, and the
  entries of both.
\<close>

record 'mem call =
  A_shape :: shape
  tau_size :: nat
  store :: 'mem

record GelqfOpts =
  gelqf_nb :: nat

record GerqfOpts =
  gerqf_nb :: nat

text \<open>The default options: \<open>idx_t nb = 32\<close>.\<close>

definition GelqfOpts_default :: GelqfOpts where
  "GelqfOpts_default = \<lparr>gelqf_nb = 32\<rparr>"

definition GerqfOpts_default :: GerqfOpts where
  "GerqfOpts_default = \<lparr>gerqf_nb = 32\<rparr>"

section \<open>gelqf: the blocked LQ driver\<close>

text \<open>
  \<open>gelqf_worksize<T>(A, tau, opts)\<close>. \<open>isT\<close> is the value of
  \<open>is_same_v<T, type_t<matrixT_t>>\<close> for the \<open>T\<close> the caller chose.
\<close>

definition gelqf_worksize ::
  "('mem, 'scr, 'w) lapack_env \<Rightarrow> bool \<Rightarrow> shape \<Rightarrow> nat \<Rightarrow> GelqfOpts \<Rightarrow> 'w" where
  "gelqf_worksize E isT A tau opts =
     (let m = nrows A;
          n = ncols A;
          k = min m n;
          nb = min (gelqf_nb opts) k;
          A11 = slice (full A) (0, nb) (0, n);
          tauw1 = (0, nb);
          workinfo = wi_transpose E (gelq2_worksize E A11 tauw1)
      in if m > nb then
           (let TT1 = slice (full A) (0, nb) (0, nb);
                A12 = slice (full A) (nb, m) (0, n);
                workinfo1 = wi_minMax E workinfo
                              (larfb_worksize E Right NoTrans Forward Rowwise A11 TT1 A12)
            in if isT then wi_plus E workinfo1 (WorkInfo E nb nb) else workinfo1)
         else workinfo)"

text \<open>
  "Allocate or get workspace": the shape of \<open>work\<close>, the window \<open>TT\<close> inside
  it, and the fresh scratch.
\<close>

definition gelqf_alloc ::
  "('mem, 'scr, 'w) lapack_env \<Rightarrow> GelqfOpts \<Rightarrow> 'mem call \<Rightarrow> shape \<times> window \<times> 'scr" where
  "gelqf_alloc E opts a =
     (let A = A_shape a;
          m = nrows A;
          n = ncols A;
          k = min m n;
          nb = min (gelqf_nb opts) k;
          workinfo = gelqf_worksize E (T_is_matrixT E) A (tau_size a) opts;
          work = (wi_m E workinfo, wi_n E workinfo);
          TT = (if m > nb
                then slice (full work) (idx_sub (wi_m E workinfo) nb, wi_m E workinfo)
                       (idx_sub (wi_n E workinfo) nb, wi_n E workinfo)
                else slice (full work) (0, 0) (0, 0))
      in (work, TT, new_matrix E (wi_m E workinfo) (wi_n E workinfo)))"

text \<open>The body of the main loop, at progress index \<open>j\<close>.\<close>

definition gelqf_panel ::
  "('mem, 'scr, 'w) lapack_env \<Rightarrow> shape \<Rightarrow> nat \<Rightarrow> nat \<Rightarrow> window \<Rightarrow> shape \<Rightarrow> nat
     \<Rightarrow> 'mem \<times> 'scr \<Rightarrow> 'mem \<times> 'scr" where
  "gelqf_panel E A k nb TT work j s =
     (let m = nrows A;
          n = ncols A;
          ib = min nb (idx_sub k j);
          A11 = slice (full A) (j, j + ib) (j, n);
          tauw1 = (j, j + ib);
          s1 = gelq2 E A11 tauw1 (transpose_view work) s
      in if j + ib < m then
           (let TT1 = slice TT (0, ib) (0, ib);
                s2 = larft E Forward Rowwise A11 tauw1 TT1 s1;
                A12 = slice (full A) (j + ib, m) (j, n)
            in larfb E Right NoTrans Forward Rowwise A11 TT1 A12 work s2)
         else s1)"

text \<open>
  \<open>for (idx_t j = 0; j < k; j += nb)\<close>. The loop does not end when \<open>nb = 0\<close>
  and \<open>k > 0\<close>: not returning is the value \<open>None\<close>.
\<close>

partial_function (option) gelqf_loop ::
  "('mem, 'scr, 'w) lapack_env \<Rightarrow> shape \<Rightarrow> nat \<Rightarrow> nat \<Rightarrow> window \<Rightarrow> shape \<Rightarrow> nat
     \<Rightarrow> 'mem \<times> 'scr \<Rightarrow> ('mem \<times> 'scr) option" where
  "gelqf_loop E A k nb TT work j s =
     (if j < k then gelqf_loop E A k nb TT work (j + nb) (gelqf_panel E A k nb TT work j s)
      else Some s)"

declare gelqf_loop.simps [code]

text \<open>
  The driver. The result is \<open>None\<close> when the call does not return; otherwise
  the error with the entries of \<open>A\<close> and \<open>tau\<close> as they were when it was
  signalled, or the returned status with the final entries. The scratch is
  local to the call.
\<close>

definition gelqf ::
  "('mem, 'scr, 'w) lapack_env \<Rightarrow> GelqfOpts \<Rightarrow> 'mem call
     \<Rightarrow> (lapack_error \<times> 'mem + int \<times> 'mem) option" where
  "gelqf E opts a =
     (let A = A_shape a;
          m = nrows A;
          n = ncols A;
          k = min m n;
          nb = min (gelqf_nb opts) k
      in if tlapack_check_signals (tau_size a \<ge> k)
         then Some (Inl (Precondition_violation, store a))
         else (case gelqf_alloc E opts a of
                 (work, TT, scr) \<Rightarrow>
                   map_option (\<lambda>s. Inr (0, fst s))
                     (gelqf_loop E A k nb TT work 0 (store a, scr))))"

section \<open>gerqf: the blocked RQ driver\<close>

definition gerqf_worksize ::
  "('mem, 'scr, 'w) lapack_env \<Rightarrow> bool \<Rightarrow> shape \<Rightarrow> nat \<Rightarrow> GerqfOpts \<Rightarrow> 'w" where
  "gerqf_worksize E isT A tau opts =
     (let m = nrows A;
          n = ncols A;
          k = min m n;
          nb = min (gerqf_nb opts) k;
          A11 = slice (full A) (0, nb) (0, n);
          tauw1 = (0, nb);
          workinfo = wi_transpose E (gerq2_worksize E A11 tauw1)
      in if m > nb then
           (let TT1 = slice (full A) (0, nb) (0, nb);
                A12 = slice (full A) (nb, m) (0, n);
                workinfo1 = wi_minMax E workinfo
                              (larfb_worksize E Right NoTrans Backward Rowwise A11 TT1 A12)
            in if isT then wi_plus E workinfo1 (WorkInfo E nb nb) else workinfo1)
         else workinfo)"

definition gerqf_alloc ::
  "('mem, 'scr, 'w) lapack_env \<Rightarrow> GerqfOpts \<Rightarrow> 'mem call \<Rightarrow> shape \<times> window \<times> 'scr" where
  "gerqf_alloc E opts a =
     (let A = A_shape a;
          m = nrows A;
          n = ncols A;
          k = min m n;
          nb = min (gerqf_nb opts) k;
          workinfo = gerqf_worksize E (T_is_matrixT E) A (tau_size a) opts;
          work = (wi_m E workinfo, wi_n E workinfo);
          TT = (if m > nb
                then slice (full work) (idx_sub (wi_m E workinfo) nb, wi_m E workinfo)
                       (idx_sub (wi_n E workinfo) nb, wi_n E workinfo)
                else slice (full work) (0, 0) (0, 0))
      in (work, TT, new_matrix E (wi_m E workinfo) (wi_n E workinfo)))"

text \<open>The body of the main loop, at the backward offset \<open>j2\<close>.\<close>

definition gerqf_panel ::
  "('mem, 'scr, 'w) lapack_env \<Rightarrow> shape \<Rightarrow> nat \<Rightarrow> nat \<Rightarrow> window \<Rightarrow> shape \<Rightarrow> nat
     \<Rightarrow> 'mem \<times> 'scr \<Rightarrow> 'mem \<times> 'scr" where
  "gerqf_panel E A k nb TT work j2 s =
     (let m = nrows A;
          n = ncols A;
          ib = min nb (idx_sub k j2);
          j = idx_sub (idx_sub m j2) ib;
          A11 = slice (full A) (j, j + ib) (0, idx_sub n j2);
          tauw1 = (idx_sub (idx_sub k j2) ib, idx_sub k j2);
          s1 = gerq2 E A11 tauw1 (transpose_view work) s
      in if j > 0 then
           (let TT1 = slice TT (0, ib) (0, ib);
                s2 = larft E Backward Rowwise A11 tauw1 TT1 s1;
                A12 = slice (full A) (0, j) (0, idx_sub n j2)
            in larfb E Right NoTrans Backward Rowwise A11 TT1 A12 work s2)
         else s1)"

text \<open>\<open>for (idx_t j2 = 0; j2 < k; j2 += nb)\<close>\<close>

partial_function (option) gerqf_loop ::
  "('mem, 'scr, 'w) lapack_env \<Rightarrow> shape \<Rightarrow> nat \<Rightarrow> nat \<Rightarrow> window \<Rightarrow> shape \<Rightarrow> nat
     \<Rightarrow> 'mem \<times> 'scr \<Rightarrow> ('mem \<times> 'scr) option" where
  "gerqf_loop E A k nb TT work j2 s =
     (if j2 < k then gerqf_loop E A k nb TT work (j2 + nb) (gerqf_panel E A k nb TT work j2 s)
      else Some s)"

declare gerqf_loop.simps [code]

definition gerqf ::
  "('mem, 'scr, 'w) lapack_env \<Rightarrow> GerqfOpts \<Rightarrow> 'mem call
     \<Rightarrow> (lapack_error \<times> 'mem + int \<times> 'mem) option" where
  "gerqf E opts a =
     (let A = A_shape a;
          m = nrows A;
          n = ncols A;
          k = min m n;
          nb = min (gerqf_nb opts) k
      in if tlapack_check_signals (tau_size a \<ge> k)
         then Some (Inl (Precondition_violation, store a))
         else (case gerqf_alloc E opts a of
                 (work, TT, scr) \<Rightarrow>
                   map_option (\<lambda>s. Inr (0, fst s))
                     (gerqf_loop E A k nb TT work 0 (store a, scr))))"

section \<open>The sweeps as the specification words them\<close>

text \<open>
  The forward sweep of the LQ driver in the words of the spec (section 4.6).
  One iteration at progress index \<open>j\<close> with panel height \<open>ib\<close>: the panel
  factorizer factors rows \<open>[j, j+ib)\<close> across columns \<open>[j, n)\<close>, with the
  \<open>tau\<close> entries \<open>[j, j+ib)\<close>; if rows remain below (\<open>j + ib < m\<close>), the
  block factor \<open>T\<close> (square of side \<open>ib\<close>, at the corner of \<open>TT\<close>) is built
  for direction Forward and storage Rowwise, and the block reflector is applied
  from the right to rows \<open>[j+ib, m)\<close> over columns \<open>[j, n)\<close>.
\<close>

definition lq_iteration ::
  "('mem, 'scr, 'w) lapack_env \<Rightarrow> shape \<Rightarrow> window \<Rightarrow> shape \<Rightarrow> nat \<Rightarrow> nat
     \<Rightarrow> 'mem \<times> 'scr \<Rightarrow> 'mem \<times> 'scr" where
  "lq_iteration E A TT work j ib s =
     (let m = nrows A;
          n = ncols A;
          panel = ((j, j + ib), (j, n));
          T = ((fst (fst TT), fst (fst TT) + ib), (fst (snd TT), fst (snd TT) + ib));
          s1 = gelq2 E panel (j, j + ib) (ncols work, nrows work) s
      in if j + ib < m
         then larfb E Right NoTrans Forward Rowwise panel T ((j + ib, m), (j, n)) work
                (larft E Forward Rowwise panel (j, j + ib) T s1)
         else s1)"

text \<open>
  The state machine: \<open>j\<close> starts at \<open>0\<close> and advances by
  \<open>ib = min(nb', k - j)\<close> each iteration, until \<open>j \<ge> k\<close>.
\<close>

partial_function (option) lq_machine ::
  "('mem, 'scr, 'w) lapack_env \<Rightarrow> shape \<Rightarrow> nat \<Rightarrow> nat \<Rightarrow> window \<Rightarrow> shape \<Rightarrow> nat
     \<Rightarrow> 'mem \<times> 'scr \<Rightarrow> ('mem \<times> 'scr) option" where
  "lq_machine E A k nb TT work j s =
     (if j \<ge> k then Some s
      else lq_machine E A k nb TT work (j + min nb (k - j))
             (lq_iteration E A TT work j (min nb (k - j)) s))"

declare lq_machine.simps [code]

text \<open>
  The backward sweep of the RQ driver in the words of the spec (section 4.7):
  the offsets \<open>j2 = 0, nb, 2 nb, ...\<close> below \<open>k\<close>, in increasing order.
\<close>

definition rq_offsets :: "nat \<Rightarrow> nat \<Rightarrow> nat list" where
  "rq_offsets k nb = filter (\<lambda>j2. nb dvd j2) [0..<k]"

text \<open>
  One iteration at offset \<open>j2\<close>: with \<open>ib = min(nb, k - j2)\<close> the panel
  starts at row \<open>j = m - j2 - ib\<close> and spans rows \<open>[j, j+ib)\<close> over columns
  \<open>[0, n - j2)\<close>; the \<open>tau\<close> entries are \<open>[k - j2 - ib, k - j2)\<close>; when
  \<open>j > 0\<close>, \<open>T\<close> is built for direction Backward and storage Rowwise and
  the block reflector is applied from the right to rows \<open>[0, j)\<close> over columns
  \<open>[0, n - j2)\<close>. The differences are those of the natural numbers.
\<close>

definition rq_iteration ::
  "('mem, 'scr, 'w) lapack_env \<Rightarrow> shape \<Rightarrow> nat \<Rightarrow> nat \<Rightarrow> window \<Rightarrow> shape \<Rightarrow> nat
     \<Rightarrow> 'mem \<times> 'scr \<Rightarrow> 'mem \<times> 'scr" where
  "rq_iteration E A k nb TT work j2 s =
     (let m = nrows A;
          n = ncols A;
          ib = min nb (k - j2);
          j = m - j2 - ib;
          panel = ((j, j + ib), (0, n - j2));
          taus = (k - j2 - ib, k - j2);
          T = ((fst (fst TT), fst (fst TT) + ib), (fst (snd TT), fst (snd TT) + ib));
          s1 = gerq2 E panel taus (ncols work, nrows work) s
      in if j > 0
         then larfb E Right NoTrans Backward Rowwise panel T ((0, j), (0, n - j2)) work
                (larft E Backward Rowwise panel taus T s1)
         else s1)"

section \<open>An environment that records what the drivers do\<close>

text \<open>
  To run the drivers on concrete inputs, the parameters are instantiated by an
  environment that records: the workspace sizes are the terms the queries
  build, and each kernel appends its call, with the views it was given, to
  the log that stands for the entries of \<open>A\<close> and \<open>tau\<close>.
\<close>

datatype ws_term =
    WS_WorkInfo nat nat
  | WS_gelq2 window range
  | WS_gerq2 window range
  | WS_larfb Side Op Direction StoreV window window window
  | WS_transpose ws_term
  | WS_minMax ws_term ws_term
  | WS_plus ws_term ws_term

text \<open>
  The fields \<open>m\<close> and \<open>n\<close> of a recorded size, in a sample reading: a
  kernel asks for no scratch of its own, \<open>minMax\<close> is the larger and \<open>+=\<close>
  the sum in each dimension. The reading only serves to run the drivers; no
  statement about the sizes of the library rests on it.
\<close>

fun ws_shape :: "ws_term \<Rightarrow> shape" where
  "ws_shape (WS_WorkInfo a b) = (a, b)"
| "ws_shape (WS_gelq2 A11 tauw1) = (0, 0)"
| "ws_shape (WS_gerq2 A11 tauw1) = (0, 0)"
| "ws_shape (WS_larfb side tr direction storev V T C) = (0, 0)"
| "ws_shape (WS_transpose w) = (snd (ws_shape w), fst (ws_shape w))"
| "ws_shape (WS_minMax w1 w2) =
     (max (fst (ws_shape w1)) (fst (ws_shape w2)), max (snd (ws_shape w1)) (snd (ws_shape w2)))"
| "ws_shape (WS_plus w1 w2) =
     (fst (ws_shape w1) + fst (ws_shape w2), snd (ws_shape w1) + snd (ws_shape w2))"

datatype kernel_call =
    Call_gelq2 window range shape
  | Call_gerq2 window range shape
  | Call_larft Direction StoreV window range window
  | Call_larfb Side Op Direction StoreV window window window shape

definition log_call :: "kernel_call \<Rightarrow> kernel_call list \<times> unit \<Rightarrow> kernel_call list \<times> unit" where
  "log_call c s = (fst s @ [c], ())"

definition recording_env :: "bool \<Rightarrow> (kernel_call list, unit, ws_term) lapack_env" where
  "recording_env isT =
     \<lparr> gelq2_worksize = WS_gelq2,
       gerq2_worksize = WS_gerq2,
       larfb_worksize = WS_larfb,
       WorkInfo = WS_WorkInfo,
       wi_m = (\<lambda>w. fst (ws_shape w)),
       wi_n = (\<lambda>w. snd (ws_shape w)),
       wi_transpose = WS_transpose,
       wi_minMax = WS_minMax,
       wi_plus = WS_plus,
       T_is_matrixT = isT,
       new_matrix = (\<lambda>m n. ()),
       gelq2 = (\<lambda>A11 tauw1 workt. log_call (Call_gelq2 A11 tauw1 workt)),
       gerq2 = (\<lambda>A11 tauw1 workt. log_call (Call_gerq2 A11 tauw1 workt)),
       larft = (\<lambda>direction storev V tauw1 T. log_call (Call_larft direction storev V tauw1 T)),
       larfb = (\<lambda>side tr direction storev V T C work.
                  log_call (Call_larfb side tr direction storev V T C work)) \<rparr>"

text \<open>
  Whether a recorded size ends with the addition of the \<open>nb\<close>-by-\<open>nb\<close>
  scratch for \<open>T\<close>, that is, has the form \<open>w += WorkInfo(nb, nb)\<close>.
\<close>

fun adds_T_scratch :: "ws_term \<Rightarrow> nat \<Rightarrow> bool" where
  "adds_T_scratch (WS_plus w (WS_WorkInfo a b)) nb = (a = nb \<and> b = nb)"
| "adds_T_scratch w nb = False"

section \<open>Properties of ungl2\<close>

lemma of_nat_not_sentinel:
  assumes "Suc x < 2 ^ LENGTH('i)"
  shows "(of_nat x :: 'i::len word) \<noteq> - 1"
proof
  assume "of_nat x = (- 1 :: 'i word)"
  then have "unat (- 1 :: 'i word) = x"
    using assms by (intro of_nat_inverse) simp_all
  then have "x = 2 ^ LENGTH('i) - 1"
    by (simp add: unsigned_minus_1_eq_mask mask_eq_exp_minus_1)
  then show False
    using assms by simp
qed

lemma ungl2_loop_from_nat:
  fixes K :: "('i::len word, 'e::{zero,one,minus,uminus}) ungl2_kernels"
  assumes "x < 2 ^ LENGTH('i)"
  shows "ungl2_loop K k n m t tauw (of_nat x - 1) Q
           = fold (ungl2_body K k n m t tauw) (rev (map of_nat [0..<x])) Q"
  using assms
proof (induction x arbitrary: Q)
  case 0
  then show ?case
    by (simp add: ungl2_loop.simps [of _ _ _ _ _ _ "- 1"])
next
  case (Suc x)
  then have ne: "(of_nat x :: 'i word) \<noteq> - 1"
    by (simp add: of_nat_not_sentinel)
  have "ungl2_loop K k n m t tauw (of_nat (Suc x) - 1) Q
          = ungl2_loop K k n m t tauw (of_nat x - 1) (ungl2_body K k n m t tauw (of_nat x) Q)"
    using ne by (simp add: ungl2_loop.simps [of _ _ _ _ _ _ "of_nat x"])
  also have "\<dots> = fold (ungl2_body K k n m t tauw) (rev (map of_nat [0..<x]))
                     (ungl2_body K k n m t tauw (of_nat x) Q)"
    using Suc by simp
  finally show ?case by simp
qed

text \<open>
  C8. The reverse loop of \<open>ungl2\<close>, started at \<open>j = t - 1\<close> and stopped by
  \<open>j = idx_t(-1)\<close>, returns for every input (it is a total function, by the
  termination proof above) and runs its body exactly once for each of the
  \<open>t\<close> indices \<open>t - 1, ..., 0\<close>, in that order; for \<open>t = 0\<close> the start value
  is the sentinel itself and the body is not run at all. In \<open>ungl2\<close> the count
  is \<open>t = min(nrows(Q), size(tauw))\<close>.
\<close>

theorem ungl2_reverse_loop_runs_t_times:
  fixes K :: "('i::len word, 'e::{zero,one,minus,uminus}) ungl2_kernels"
  shows "ungl2_loop K k n m t tauw (t - 1) Q
           = fold (ungl2_body K k n m t tauw) (countdown t) Q
         \<and> length (countdown t) = unat t
         \<and> ungl2_loop K k n m 0 tauw (0 - 1) Q = Q
         \<and> ungl2 K k n Q m tauw
             = Inr (0, fold (ungl2_body K k n m (min k m) tauw) (countdown (min k m))
                         (if k > m then ungl2_init k n (min k m) Q else Q))"
proof -
  have "ungl2_loop K k n m t tauw (of_nat (unat t) - 1) Q
          = fold (ungl2_body K k n m t tauw) (rev (map of_nat [0..<unat t])) Q" for t Q
    by (rule ungl2_loop_from_nat) simp
  then have loop: "ungl2_loop K k n m t tauw (t - 1) Q
          = fold (ungl2_body K k n m t tauw) (countdown t) Q" for t Q
    by (simp add: countdown_def)
  have "\<not> ungl2_check_fails m n"
    by (simp add: ungl2_check_fails_def tlapack_check_false_signals_def)
  then have "ungl2 K k n Q m tauw
             = Inr (0, fold (ungl2_body K k n m (min k m) tauw) (countdown (min k m))
                         (if k > m then ungl2_init k n (min k m) Q else Q))"
    by (simp add: ungl2_def loop)
  moreover have "length (countdown t) = unat t"
    by (simp add: countdown_def)
  moreover have "ungl2_loop K k n m 0 tauw (0 - 1) Q = Q"
    by (simp add: ungl2_loop.simps [of _ _ _ _ _ _ "- 1"])
  ultimately show ?thesis
    using loop by simp
qed

text \<open>
  C10. The argument check of \<open>ungl2\<close> cannot fire: with \<open>m\<close> bound to
  \<open>size(tauw)\<close> the tested condition \<open>size(tauw) < min(m, n)\<close> is false for
  every size of \<open>tauw\<close> and every \<open>n\<close>, so \<open>ungl2\<close> never returns the
  precondition violation, however short \<open>tauw\<close> is for the matrix \<open>Q\<close>.
\<close>

theorem ungl2_check_never_fires:
  fixes K :: "('i::len word, 'e::{zero,one,minus,uminus}) ungl2_kernels"
  shows "\<not> ungl2_check_fails size_tauw n
         \<and> ungl2 K k n Q size_tauw tauw \<noteq> Inl (e, Q')"
proof -
  have "\<not> size_tauw < min size_tauw n"
    by simp
  then have nf: "\<not> ungl2_check_fails size_tauw n"
    by (simp add: ungl2_check_fails_def tlapack_check_false_signals_def)
  then have "\<exists>r. ungl2 K k n Q size_tauw tauw = Inr r"
    by (simp add: ungl2_def Let_def)
  then show ?thesis
    using nf by auto
qed

section \<open>Properties of the LQ driver\<close>

lemma gelqf_loop_stuck:
  assumes "gelqf_loop E A k nb TT work j s = Some y"
  shows "\<not> (nb = 0 \<and> j < k)"
proof (rule gelqf_loop.raw_induct
        [where P = "\<lambda>E A k nb TT work j s y. \<not> (nb = 0 \<and> j < k)", OF _ assms])
  fix f :: "('a, 'b, 'c) lapack_env \<Rightarrow> shape \<Rightarrow> nat \<Rightarrow> nat \<Rightarrow> window \<Rightarrow> shape \<Rightarrow> nat
              \<Rightarrow> 'a \<times> 'b \<Rightarrow> ('a \<times> 'b) option"
  fix E A k nb TT work j s y
  assume IH: "\<And>E A k nb TT work j s y.
                f E A k nb TT work j s = Some y \<Longrightarrow> \<not> (nb = 0 \<and> j < k)"
  assume step: "(if j < k then f E A k nb TT work (j + nb) (gelqf_panel E A k nb TT work j s)
                 else Some s) = Some y"
  show "\<not> (nb = 0 \<and> j < k)"
  proof
    assume stuck: "nb = 0 \<and> j < k"
    then have "f E A k nb TT work (j + nb) (gelqf_panel E A k nb TT work j s) = Some y"
      using step by simp
    from IH [OF this] show False
      using stuck by simp
  qed
qed

lemma lq_machine_stuck:
  assumes "lq_machine E A k nb TT work j s = Some y"
  shows "\<not> (nb = 0 \<and> j < k)"
proof (rule lq_machine.raw_induct
        [where P = "\<lambda>E A k nb TT work j s y. \<not> (nb = 0 \<and> j < k)", OF _ assms])
  fix f :: "('a, 'b, 'c) lapack_env \<Rightarrow> shape \<Rightarrow> nat \<Rightarrow> nat \<Rightarrow> window \<Rightarrow> shape \<Rightarrow> nat
              \<Rightarrow> 'a \<times> 'b \<Rightarrow> ('a \<times> 'b) option"
  fix E A k nb TT work j s y
  assume IH: "\<And>E A k nb TT work j s y.
                f E A k nb TT work j s = Some y \<Longrightarrow> \<not> (nb = 0 \<and> j < k)"
  assume step: "(if k \<le> j then Some s
                 else f E A k nb TT work (j + min nb (k - j))
                        (lq_iteration E A TT work j (min nb (k - j)) s)) = Some y"
  show "\<not> (nb = 0 \<and> j < k)"
  proof
    assume stuck: "nb = 0 \<and> j < k"
    then have "f E A k nb TT work (j + min nb (k - j))
                 (lq_iteration E A TT work j (min nb (k - j)) s) = Some y"
      using step by simp
    from IH [OF this] show False
      using stuck by simp
  qed
qed

lemma gelqf_panel_eq_lq_iteration:
  assumes "j < k"
  shows "gelqf_panel E A k nb TT work j s = lq_iteration E A TT work j (min nb (k - j)) s"
  using assms
  by (simp add: gelqf_panel_def lq_iteration_def idx_sub_def slice_def full_def
      transpose_view_def Let_def)

lemma gelqf_loop_eq_lq_machine_pos:
  assumes "0 < nb"
  shows "gelqf_loop E A k nb TT work j s = lq_machine E A k nb TT work j s"
  using assms
proof (induction "k - j" arbitrary: j s rule: less_induct)
  case less
  show ?case
  proof (cases "j < k")
    case False
    then show ?thesis
      by (simp add: gelqf_loop.simps [of _ _ _ _ _ _ j] lq_machine.simps [of _ _ _ _ _ _ j])
  next
    case True
    let ?s = "lq_iteration E A TT work j (min nb (k - j)) s"
    have code: "gelqf_loop E A k nb TT work j s = gelqf_loop E A k nb TT work (j + nb) ?s"
      using True by (simp add: gelqf_loop.simps [of _ _ _ _ _ _ j] gelqf_panel_eq_lq_iteration)
    have spec: "lq_machine E A k nb TT work j s
                  = lq_machine E A k nb TT work (j + min nb (k - j)) ?s"
      using True by (simp add: lq_machine.simps [of _ _ _ _ _ _ j])
    show ?thesis
    proof (cases "nb \<le> k - j")
      case True
      then have "min nb (k - j) = nb" by simp
      moreover have "gelqf_loop E A k nb TT work (j + nb) ?s
                       = lq_machine E A k nb TT work (j + nb) ?s"
        using less.prems \<open>j < k\<close> by (intro less.hyps) simp_all
      ultimately show ?thesis
        using code spec by simp
    next
      case False
      then have past: "\<not> j + nb < k" and reach: "k \<le> j + min nb (k - j)"
        using \<open>j < k\<close> by simp_all
      have "gelqf_loop E A k nb TT work x ?s = Some ?s" if "\<not> x < k" for x
        using that by (subst gelqf_loop.simps) simp
      then have "gelqf_loop E A k nb TT work (j + nb) ?s = Some ?s"
        using past by blast
      moreover have "lq_machine E A k nb TT work x ?s = Some ?s" if "k \<le> x" for x
        using that by (subst lq_machine.simps) simp
      then have "lq_machine E A k nb TT work (j + min nb (k - j)) ?s = Some ?s"
        using reach by blast
      ultimately show ?thesis
        using code spec by simp
    qed
  qed
qed

lemma gelqf_loop_eq_lq_machine:
  "gelqf_loop E A k nb TT work j s = lq_machine E A k nb TT work j s"
proof (cases "0 < nb")
  case True
  then show ?thesis by (rule gelqf_loop_eq_lq_machine_pos)
next
  case False
  then have nb: "nb = 0" by simp
  show ?thesis
  proof (cases "j < k")
    case True
    have "gelqf_loop E A k nb TT work j s = None"
      using gelqf_loop_stuck [of E A k nb TT work j s] nb True by (cases "gelqf_loop E A k nb TT work j s") auto
    moreover have "lq_machine E A k nb TT work j s = None"
      using lq_machine_stuck [of E A k nb TT work j s] nb True by (cases "lq_machine E A k nb TT work j s") auto
    ultimately show ?thesis by simp
  next
    case False
    then show ?thesis
      by (simp add: gelqf_loop.simps [of _ _ _ _ _ _ j] lq_machine.simps [of _ _ _ _ _ _ j])
  qed
qed

lemma gelqf_loop_returns:
  assumes "0 < nb"
  shows "\<exists>s'. gelqf_loop E A k nb TT work j s = Some s'"
  using assms
proof (induction "k - j" arbitrary: j s rule: less_induct)
  case less
  show ?case
  proof (cases "j < k")
    case False
    then show ?thesis
      by (simp add: gelqf_loop.simps [of _ _ _ _ _ _ j])
  next
    case True
    have "\<exists>s'. gelqf_loop E A k nb TT work (j + nb) (gelqf_panel E A k nb TT work j s) = Some s'"
      using less.prems True by (intro less.hyps) simp_all
    then show ?thesis
      using True by (simp add: gelqf_loop.simps [of _ _ _ _ _ _ j])
  qed
qed

text \<open>
  With a block size of \<open>0\<close> and a non-empty matrix the loop of the driver
  does not end.
\<close>

lemma gelqf_loop_zero_block_size:
  assumes "j < k"
  shows "gelqf_loop E A k 0 TT work j s = None"
proof (cases "gelqf_loop E A k 0 TT work j s")
  case None
  then show ?thesis .
next
  case (Some y)
  then show ?thesis
    using gelqf_loop_stuck [of E A k 0 TT work j s y] assms by simp
qed

text \<open>
  C1. The LQ driver is the forward sweep of the spec. For every shape of \<open>A\<close>,
  with \<open>k = min(m, n)\<close> and \<open>nb' = min(opts.nb, k)\<close>, a call that passes the
  check of \<open>tau\<close> runs the state machine that starts at \<open>j = 0\<close>, advances
  by \<open>ib = min(nb', k - j)\<close> and stops when \<open>j \<ge> k\<close>, each iteration being
  \<open>lq_iteration\<close>: the panel factorizer on rows \<open>[j, j+ib)\<close> and columns
  \<open>[j, n)\<close>, and exactly when \<open>j + ib < m\<close> the block factor for Forward
  and Rowwise and the block reflector applied from the right to rows
  \<open>[j+ib, m)\<close> over columns \<open>[j, n)\<close>. The equation holds also where
  neither side returns (block size \<open>0\<close> with \<open>k > 0\<close>); for a block size of
  at least \<open>1\<close> the driver returns.
\<close>

theorem gelqf_forward_sweep:
  "gelqf E opts a =
     (let A = A_shape a;
          k = min (nrows A) (ncols A);
          nb' = min (gelqf_nb opts) k
      in if tau_size a < k then Some (Inl (Precondition_violation, store a))
         else (case gelqf_alloc E opts a of
                 (work, TT, scr) \<Rightarrow>
                   map_option (\<lambda>s. Inr (0, fst s))
                     (lq_machine E A k nb' TT work 0 (store a, scr))))
   \<and> (1 \<le> gelqf_nb opts \<longrightarrow> gelqf E opts a \<noteq> None)"
proof -
  let ?A = "A_shape a"
  let ?k = "min (nrows ?A) (ncols ?A)"
  let ?nb = "min (gelqf_nb opts) ?k"
  obtain work TT scr where alloc: "gelqf_alloc E opts a = (work, TT, scr)"
    by (cases "gelqf_alloc E opts a") auto
  have sweep: "gelqf_loop E ?A ?k ?nb TT work 0 (store a, scr)
                 = lq_machine E ?A ?k ?nb TT work 0 (store a, scr)"
    by (rule gelqf_loop_eq_lq_machine)
  have first: "gelqf E opts a =
     (if tau_size a < ?k then Some (Inl (Precondition_violation, store a))
      else map_option (\<lambda>s. Inr (0, fst s)) (lq_machine E ?A ?k ?nb TT work 0 (store a, scr)))"
    by (simp add: gelqf_def Let_def tlapack_check_signals_def alloc sweep not_le)
  have second: "gelqf E opts a \<noteq> None" if nb: "1 \<le> gelqf_nb opts"
  proof (cases "?k = 0")
    case True
    then have "gelqf_loop E ?A ?k ?nb TT work 0 (store a, scr) = Some (store a, scr)"
      by (subst gelqf_loop.simps) simp
    then show ?thesis
      by (simp add: gelqf_def Let_def alloc)
  next
    case False
    then have "0 < ?nb"
      using nb by simp
    then obtain s' where "gelqf_loop E ?A ?k ?nb TT work 0 (store a, scr) = Some s'"
      using gelqf_loop_returns by blast
    then show ?thesis
      by (simp add: gelqf_def Let_def alloc)
  qed
  show ?thesis
    using first second by (simp add: Let_def alloc)
qed

theorem gelqf_forward_sweep_witness:
  "(1::nat) \<le> gelqf_nb \<lparr>gelqf_nb = 2\<rparr>
   \<and> gelqf (recording_env True) \<lparr>gelqf_nb = 2\<rparr> \<lparr>A_shape = (5, 3), tau_size = 3, store = []\<rparr>
       = Some (Inr (0,
           [Call_gelq2 ((0, 2), (0, 3)) (0, 2) (2, 2),
            Call_larft Forward Rowwise ((0, 2), (0, 3)) (0, 2) ((0, 2), (0, 2)),
            Call_larfb Right NoTrans Forward Rowwise ((0, 2), (0, 3)) ((0, 2), (0, 2))
              ((2, 5), (0, 3)) (2, 2),
            Call_gelq2 ((2, 3), (2, 3)) (2, 3) (2, 2),
            Call_larft Forward Rowwise ((2, 3), (2, 3)) (2, 3) ((0, 1), (0, 1)),
            Call_larfb Right NoTrans Forward Rowwise ((2, 3), (2, 3)) ((0, 1), (0, 1))
              ((3, 5), (2, 3)) (2, 2)]))"
  using gelqf_forward_sweep [of "recording_env True" "\<lparr>gelqf_nb = 2\<rparr>"
      "\<lparr>A_shape = (5, 3), tau_size = 3, store = []\<rparr>"]
  by code_simp


section \<open>Properties of the RQ driver\<close>

lemma gerqf_panel_eq_rq_iteration:
  assumes "j2 < k" and "k \<le> nrows A" and "k \<le> ncols A"
  shows "gerqf_panel E A k nb TT work j2 s = rq_iteration E A k nb TT work j2 s"
proof -
  define ib where "ib = min nb (k - j2)"
  have ib: "ib \<le> k - j2"
    by (simp add: ib_def)
  have exact: "idx_sub k j2 = k - j2" "idx_sub (nrows A) j2 = nrows A - j2"
    "idx_sub (ncols A) j2 = ncols A - j2"
    using assms by (simp_all add: idx_sub_def)
  have exact': "idx_sub (nrows A - j2) ib = nrows A - j2 - ib"
    "idx_sub (k - j2) ib = k - j2 - ib"
    using assms ib by (simp_all add: idx_sub_def)
  show ?thesis
    unfolding gerqf_panel_def rq_iteration_def Let_def exact ib_def [symmetric] exact'
    by (simp only: slice_def full_def transpose_view_def fst_conv snd_conv add_0 add_0_right)
qed

lemma no_multiple_inside_block:
  assumes "nb dvd j2" and "j2 < x" and "x < j2 + nb"
  shows "\<not> nb dvd (x::nat)"
proof
  assume "nb dvd x"
  then have "nb dvd x - j2"
    using assms(1) by (rule dvd_diff_nat)
  moreover have "0 < x - j2"
    using assms(2) by simp
  ultimately have "nb \<le> x - j2"
    by (rule dvd_imp_le)
  then show False
    using assms(2,3) by arith
qed

lemma multiples_from:
  assumes "0 < nb" and "nb dvd j2" and "j2 < k"
  shows "filter (\<lambda>x. nb dvd x) [j2..<k] = j2 # filter (\<lambda>x. nb dvd x) [j2 + nb..<k]"
proof -
  have head: "[j2..<k] = j2 # [Suc j2..<k]"
    using assms(3) by (rule upt_conv_Cons)
  have rest: "filter (\<lambda>x. nb dvd x) [Suc j2..<k] = filter (\<lambda>x. nb dvd x) [j2 + nb..<k]"
  proof (cases "j2 + nb \<le> k")
    case True
    have "[Suc j2..<j2 + nb + (k - (j2 + nb))]
            = [Suc j2..<j2 + nb] @ [j2 + nb..<j2 + nb + (k - (j2 + nb))]"
      using assms(1) by (intro upt_add_eq_append) simp
    then have "[Suc j2..<k] = [Suc j2..<j2 + nb] @ [j2 + nb..<k]"
      using True by simp
    moreover have "\<not> nb dvd x" if "x \<in> set [Suc j2..<j2 + nb]" for x
      using assms(2) that by (intro no_multiple_inside_block [of nb j2]) simp_all
    then have "filter (\<lambda>x. nb dvd x) [Suc j2..<j2 + nb] = []"
      by (simp only: filter_empty_conv) blast
    ultimately show ?thesis
      by simp
  next
    case False
    have "\<not> nb dvd x" if "x \<in> set [Suc j2..<k]" for x
      using assms(2) that False by (intro no_multiple_inside_block [of nb j2]) simp_all
    then have "filter (\<lambda>x. nb dvd x) [Suc j2..<k] = []"
      by (simp only: filter_empty_conv) blast
    then show ?thesis
      using False by simp
  qed
  show ?thesis
    using assms(2) by (simp add: head rest)
qed

lemma gerqf_loop_sweep:
  assumes "0 < nb" and "nb dvd j2" and "k \<le> nrows A" and "k \<le> ncols A"
  shows "gerqf_loop E A k nb TT work j2 s
           = Some (fold (rq_iteration E A k nb TT work) (filter (\<lambda>x. nb dvd x) [j2..<k]) s)"
  using assms(2)
proof (induction "k - j2" arbitrary: j2 s rule: less_induct)
  case less
  show ?case
  proof (cases "j2 < k")
    case False
    then show ?thesis
      by (subst gerqf_loop.simps) simp
  next
    case True
    let ?s = "rq_iteration E A k nb TT work j2 s"
    have "gerqf_loop E A k nb TT work j2 s = gerqf_loop E A k nb TT work (j2 + nb) ?s"
      using True assms(3,4) by (subst gerqf_loop.simps) (simp add: gerqf_panel_eq_rq_iteration)
    also have "\<dots> = Some (fold (rq_iteration E A k nb TT work)
                          (filter (\<lambda>x. nb dvd x) [j2 + nb..<k]) ?s)"
      using True assms(1) less.prems by (intro less.hyps) simp_all
    finally show ?thesis
      using True assms(1) less.prems by (simp add: multiples_from)
  qed
qed

text \<open>
  C2. The RQ driver sweeps backward. For a block size of at least \<open>1\<close> and a
  \<open>tau\<close> of at least \<open>k = min(m, n)\<close> entries, with
  \<open>nb = min(opts.nb, k)\<close>, the driver returns the status \<open>0\<close> after running
  \<open>rq_iteration\<close> at the offsets \<open>j2 = 0, nb, 2 nb, ...\<close> below \<open>k\<close>, in
  this order: with \<open>ib = min(nb, k - j2)\<close> the panel starts at row
  \<open>j = m - j2 - ib\<close> and spans rows \<open>[j, j+ib)\<close> over columns
  \<open>[0, n - j2)\<close>, the \<open>tau\<close> entries are \<open>[k - j2 - ib, k - j2)\<close>, the
  direction is Backward and the storage Rowwise, and exactly when \<open>j > 0\<close>
  the block reflector is applied from the right to rows \<open>[0, j)\<close> over
  columns \<open>[0, n - j2)\<close>. At each of these offsets the differences are exact:
  none of the driver's unsigned subtractions wraps.
\<close>

theorem gerqf_backward_sweep:
  assumes "1 \<le> gerqf_nb opts"
    and "min (nrows (A_shape a)) (ncols (A_shape a)) \<le> tau_size a"
  shows "let A = A_shape a;
             m = nrows A;
             n = ncols A;
             k = min m n;
             nb = min (gerqf_nb opts) k
         in gerqf E opts a =
              (case gerqf_alloc E opts a of
                 (work, TT, scr) \<Rightarrow>
                   Some (Inr (0, fst (fold (rq_iteration E A k nb TT work) (rq_offsets k nb)
                                        (store a, scr)))))
            \<and> (\<forall>j2 \<in> set (rq_offsets k nb).
                  j2 + min nb (k - j2) \<le> m \<and> j2 + min nb (k - j2) \<le> k \<and> j2 < n)"
proof -
  define A where "A = A_shape a"
  define k where "k = min (nrows A) (ncols A)"
  define nb where "nb = min (gerqf_nb opts) k"
  obtain work TT scr where alloc: "gerqf_alloc E opts a = (work, TT, scr)"
    by (cases "gerqf_alloc E opts a") auto
  have bounds: "k \<le> nrows A" "k \<le> ncols A"
    by (simp_all add: k_def)
  have loop: "gerqf_loop E A k nb TT work 0 (store a, scr)
                = Some (fold (rq_iteration E A k nb TT work) (rq_offsets k nb) (store a, scr))"
  proof (cases "k = 0")
    case True
    then have "gerqf_loop E A k nb TT work 0 (store a, scr) = Some (store a, scr)"
      by (subst gerqf_loop.simps) simp
    then show ?thesis
      using True by (simp add: rq_offsets_def)
  next
    case False
    then have "0 < nb"
      using assms(1) by (simp add: nb_def)
    then show ?thesis
      unfolding rq_offsets_def using bounds by (intro gerqf_loop_sweep) simp_all
  qed
  have "k \<le> tau_size a"
    using assms(2) by (simp add: k_def A_def)
  then have run: "gerqf E opts a
          = Some (Inr (0, fst (fold (rq_iteration E A k nb TT work) (rq_offsets k nb)
                                 (store a, scr))))"
    by (simp add: gerqf_def Let_def tlapack_check_signals_def alloc loop
        A_def [symmetric] k_def [symmetric] nb_def [symmetric])
  have inside: "j2 + min nb (k - j2) \<le> nrows A \<and> j2 + min nb (k - j2) \<le> k \<and> j2 < ncols A"
    if "j2 \<in> set (rq_offsets k nb)" for j2
  proof -
    have "j2 < k"
      using that by (simp add: rq_offsets_def)
    moreover have "min nb (k - j2) \<le> k - j2"
      by simp
    ultimately show ?thesis
      using bounds by arith
  qed
  then have "\<forall>j2 \<in> set (rq_offsets k nb).
          j2 + min nb (k - j2) \<le> nrows A \<and> j2 + min nb (k - j2) \<le> k \<and> j2 < ncols A"
    by (rule ballI)
  with run show ?thesis
    by (simp only: Let_def alloc prod.case simp_thms
        A_def [symmetric] k_def [symmetric] nb_def [symmetric])
qed

theorem gerqf_backward_sweep_witness:
  "(1::nat) \<le> gerqf_nb \<lparr>gerqf_nb = 2\<rparr>
   \<and> min (nrows (5, 7)) (ncols (5, 7)) \<le> (5::nat)
   \<and> rq_offsets 5 2 = [0, 2, 4]
   \<and> gerqf (recording_env True) \<lparr>gerqf_nb = 2\<rparr> \<lparr>A_shape = (5, 7), tau_size = 5, store = []\<rparr>
       = Some (Inr (0,
           [Call_gerq2 ((3, 5), (0, 7)) (3, 5) (2, 2),
            Call_larft Backward Rowwise ((3, 5), (0, 7)) (3, 5) ((0, 2), (0, 2)),
            Call_larfb Right NoTrans Backward Rowwise ((3, 5), (0, 7)) ((0, 2), (0, 2))
              ((0, 3), (0, 7)) (2, 2),
            Call_gerq2 ((1, 3), (0, 5)) (1, 3) (2, 2),
            Call_larft Backward Rowwise ((1, 3), (0, 5)) (1, 3) ((0, 2), (0, 2)),
            Call_larfb Right NoTrans Backward Rowwise ((1, 3), (0, 5)) ((0, 2), (0, 2))
              ((0, 1), (0, 5)) (2, 2),
            Call_gerq2 ((0, 1), (0, 3)) (0, 1) (2, 2)]))"
  using gerqf_backward_sweep [of "\<lparr>gerqf_nb = 2\<rparr>"
      "\<lparr>A_shape = (5, 7), tau_size = 5, store = []\<rparr>" "recording_env True"]
  by code_simp


section \<open>Properties of both drivers\<close>

lemma gelqf_result_cases:
  "gelqf E opts a =
     (if tau_size a < min (nrows (A_shape a)) (ncols (A_shape a))
      then Some (Inl (Precondition_violation, store a))
      else map_option (\<lambda>s. Inr (0, fst s))
             (gelqf_loop E (A_shape a) (min (nrows (A_shape a)) (ncols (A_shape a)))
                (min (gelqf_nb opts) (min (nrows (A_shape a)) (ncols (A_shape a))))
                (fst (snd (gelqf_alloc E opts a))) (fst (gelqf_alloc E opts a)) 0
                (store a, snd (snd (gelqf_alloc E opts a)))))"
  by (simp add: gelqf_def Let_def tlapack_check_signals_def not_le split: prod.split)

lemma gerqf_result_cases:
  "gerqf E opts a =
     (if tau_size a < min (nrows (A_shape a)) (ncols (A_shape a))
      then Some (Inl (Precondition_violation, store a))
      else map_option (\<lambda>s. Inr (0, fst s))
             (gerqf_loop E (A_shape a) (min (nrows (A_shape a)) (ncols (A_shape a)))
                (min (gerqf_nb opts) (min (nrows (A_shape a)) (ncols (A_shape a))))
                (fst (snd (gerqf_alloc E opts a))) (fst (gerqf_alloc E opts a)) 0
                (store a, snd (snd (gerqf_alloc E opts a)))))"
  by (simp add: gerqf_def Let_def tlapack_check_signals_def not_le split: prod.split)

lemma gelqf_loop_empty: "gelqf_loop E A 0 nb TT work j s = Some s"
  by (subst gelqf_loop.simps) simp

lemma gerqf_loop_empty: "gerqf_loop E A 0 nb TT work j s = Some s"
  by (subst gerqf_loop.simps) simp

text \<open>
  C3. Each driver signals the precondition violation if and only if
  \<open>size(tau) < min(m, n)\<close>, and then the entries of \<open>A\<close> and \<open>tau\<close> are
  the ones it was called with: the check comes before the workspace query, the
  allocation and the loop. No other error is a result of a driver. When
  \<open>m = 0\<close> or \<open>n = 0\<close> the check passes for every \<open>tau\<close>, no kernel is
  called, and the driver returns the status \<open>0\<close> with \<open>A\<close> and \<open>tau\<close>
  untouched.
\<close>

theorem drivers_signal_only_short_tau:
  "((gelqf E opts a = Some (Inl x))
      = (tau_size a < min (nrows (A_shape a)) (ncols (A_shape a))
         \<and> x = (Precondition_violation, store a)))
   \<and> ((gerqf E opts' a = Some (Inl x))
      = (tau_size a < min (nrows (A_shape a)) (ncols (A_shape a))
         \<and> x = (Precondition_violation, store a)))
   \<and> (nrows (A_shape a) = 0 \<or> ncols (A_shape a) = 0 \<longrightarrow>
        gelqf E opts a = Some (Inr (0, store a)) \<and> gerqf E opts' a = Some (Inr (0, store a)))"
proof -
  let ?k = "min (nrows (A_shape a)) (ncols (A_shape a))"
  have lq: "(gelqf E opts a = Some (Inl x))
              = (tau_size a < ?k \<and> x = (Precondition_violation, store a))"
    by (subst gelqf_result_cases) auto
  have rq: "(gerqf E opts' a = Some (Inl x))
              = (tau_size a < ?k \<and> x = (Precondition_violation, store a))"
    by (subst gerqf_result_cases) auto
  have quick: "gelqf E opts a = Some (Inr (0, store a)) \<and> gerqf E opts' a = Some (Inr (0, store a))"
    if "nrows (A_shape a) = 0 \<or> ncols (A_shape a) = 0"
  proof -
    have "?k = 0"
      using that by auto
    then show ?thesis
      by (simp add: gelqf_result_cases gerqf_result_cases gelqf_loop_empty gerqf_loop_empty)
  qed
  show ?thesis
    using lq rq quick by blast
qed

theorem drivers_signal_only_short_tau_witness:
  "gelqf (recording_env True) GelqfOpts_default \<lparr>A_shape = (2, 3), tau_size = 1, store = []\<rparr>
     = Some (Inl (Precondition_violation, []))
   \<and> gerqf (recording_env True) GerqfOpts_default \<lparr>A_shape = (2, 3), tau_size = 1, store = []\<rparr>
     = Some (Inl (Precondition_violation, []))
   \<and> gelqf (recording_env True) GelqfOpts_default \<lparr>A_shape = (0, 3), tau_size = 0, store = []\<rparr>
     = Some (Inr (0, []))
   \<and> gerqf (recording_env True) GerqfOpts_default \<lparr>A_shape = (4, 0), tau_size = 0, store = []\<rparr>
     = Some (Inr (0, []))"
  using drivers_signal_only_short_tau [of "recording_env True" GelqfOpts_default
      "\<lparr>A_shape = (2, 3), tau_size = 1, store = []\<rparr>" "(Precondition_violation, [])"
      GerqfOpts_default]
    drivers_signal_only_short_tau [of "recording_env True" GelqfOpts_default
      "\<lparr>A_shape = (0, 3), tau_size = 0, store = []\<rparr>" "(Precondition_violation, [])"
      GerqfOpts_default]
    drivers_signal_only_short_tau [of "recording_env True" GelqfOpts_default
      "\<lparr>A_shape = (4, 0), tau_size = 0, store = []\<rparr>" "(Precondition_violation, [])"
      GerqfOpts_default]
  by (simp add: nrows_def ncols_def)


lemma gelqf_single_panel:
  assumes "1 \<le> k" and "k = min (nrows A) (ncols A)"
  shows "gelqf_loop E A k k TT work 0 s =
           Some (let s1 = gelq2 E ((0, k), (0, ncols A)) (0, k) (transpose_view work) s
                 in if k < nrows A
                    then larfb E Right NoTrans Forward Rowwise ((0, k), (0, ncols A))
                           (slice TT (0, k) (0, k)) ((k, nrows A), (0, ncols A)) work
                           (larft E Forward Rowwise ((0, k), (0, ncols A)) (0, k)
                              (slice TT (0, k) (0, k)) s1)
                    else s1)"
proof -
  have "gelqf_loop E A k k TT work 0 s
          = gelqf_loop E A k k TT work (0 + k) (gelqf_panel E A k k TT work 0 s)"
    using assms(1) by (subst gelqf_loop.simps) simp
  also have "\<dots> = Some (gelqf_panel E A k k TT work 0 s)"
    by (subst gelqf_loop.simps) simp
  finally show ?thesis
    by (simp add: gelqf_panel_def idx_sub_def slice_def full_def Let_def)
qed

lemma gerqf_single_panel:
  assumes "1 \<le> k" and "k = min (nrows A) (ncols A)"
  shows "gerqf_loop E A k k TT work 0 s =
           Some (let s1 = gerq2 E ((nrows A - k, nrows A), (0, ncols A)) (0, k)
                            (transpose_view work) s
                 in if k < nrows A
                    then larfb E Right NoTrans Backward Rowwise
                           ((nrows A - k, nrows A), (0, ncols A))
                           (slice TT (0, k) (0, k)) ((0, nrows A - k), (0, ncols A)) work
                           (larft E Backward Rowwise ((nrows A - k, nrows A), (0, ncols A)) (0, k)
                              (slice TT (0, k) (0, k)) s1)
                    else s1)"
proof -
  have "gerqf_loop E A k k TT work 0 s
          = gerqf_loop E A k k TT work (0 + k) (gerqf_panel E A k k TT work 0 s)"
    using assms(1) by (subst gerqf_loop.simps) simp
  also have "\<dots> = Some (gerqf_panel E A k k TT work 0 s)"
    by (subst gerqf_loop.simps) simp
  finally have run: "gerqf_loop E A k k TT work 0 s = Some (gerqf_panel E A k k TT work 0 s)" .
  have "k \<le> nrows A"
    using assms(2) by simp
  then have "gerqf_panel E A k k TT work 0 s = rq_iteration E A k k TT work 0 s"
    using assms by (intro gerqf_panel_eq_rq_iteration) simp_all
  also have "\<dots> = (let s1 = gerq2 E ((nrows A - k, nrows A), (0, ncols A)) (0, k)
                            (transpose_view work) s
                 in if k < nrows A
                    then larfb E Right NoTrans Backward Rowwise
                           ((nrows A - k, nrows A), (0, ncols A))
                           (slice TT (0, k) (0, k)) ((0, nrows A - k), (0, ncols A)) work
                           (larft E Backward Rowwise ((nrows A - k, nrows A), (0, ncols A)) (0, k)
                              (slice TT (0, k) (0, k)) s1)
                    else s1)"
    using \<open>k \<le> nrows A\<close>
    by (simp add: rq_iteration_def slice_def transpose_view_def Let_def)
  finally show ?thesis
    using run by simp
qed


text \<open>
  C6, as amended. For a block size \<open>nb \<ge> k = min(m, n)\<close> and a \<open>tau\<close> of
  at least \<open>k\<close> entries the driver runs a single panel iteration:
  \<^item> when \<open>k = 0\<close> it calls no kernel and returns \<open>A\<close> and \<open>tau\<close> as they
    were;
  \<^item> when \<open>1 \<le> m \<le> n\<close> the panel is all of \<open>A\<close>, and the result is that of
    the panel factorizer (\<open>gelq2\<close>, \<open>gerq2\<close>) alone on \<open>A\<close> and the first
    \<open>k\<close> entries of \<open>tau\<close>;
  \<^item> when \<open>m > n \<ge> 1\<close> the panel factorizer is called on \<open>k\<close> rows only
    (the first for \<open>gelqf\<close>, the last for \<open>gerqf\<close>), and the driver then
    builds \<open>T\<close> and applies the block reflector to the other \<open>m - k\<close> rows.
\<close>

theorem single_panel_fast_path:
  assumes "min (nrows (A_shape a)) (ncols (A_shape a)) \<le> gelqf_nb opts"
    and "min (nrows (A_shape a)) (ncols (A_shape a)) \<le> gerqf_nb opts'"
    and "min (nrows (A_shape a)) (ncols (A_shape a)) \<le> tau_size a"
  shows "let A = A_shape a;
             m = nrows A;
             n = ncols A;
             k = min m n
         in (k = 0 \<longrightarrow>
               gelqf E opts a = Some (Inr (0, store a))
               \<and> gerqf E opts' a = Some (Inr (0, store a)))
          \<and> (1 \<le> m \<and> m \<le> n \<longrightarrow>
               gelqf E opts a =
                 (case gelqf_alloc E opts a of
                    (work, TT, scr) \<Rightarrow>
                      Some (Inr (0, fst (gelq2 E (full A) (0, k) (transpose_view work)
                                           (store a, scr)))))
               \<and> gerqf E opts' a =
                 (case gerqf_alloc E opts' a of
                    (work, TT, scr) \<Rightarrow>
                      Some (Inr (0, fst (gerq2 E (full A) (0, k) (transpose_view work)
                                           (store a, scr))))))
          \<and> (1 \<le> n \<and> n < m \<longrightarrow>
               gelqf E opts a =
                 (case gelqf_alloc E opts a of
                    (work, TT, scr) \<Rightarrow>
                      Some (Inr (0, fst (
                        larfb E Right NoTrans Forward Rowwise ((0, k), (0, n))
                          (slice TT (0, k) (0, k)) ((k, m), (0, n)) work
                          (larft E Forward Rowwise ((0, k), (0, n)) (0, k)
                             (slice TT (0, k) (0, k))
                             (gelq2 E ((0, k), (0, n)) (0, k) (transpose_view work)
                                (store a, scr)))))))
               \<and> gerqf E opts' a =
                 (case gerqf_alloc E opts' a of
                    (work, TT, scr) \<Rightarrow>
                      Some (Inr (0, fst (
                        larfb E Right NoTrans Backward Rowwise ((m - k, m), (0, n))
                          (slice TT (0, k) (0, k)) ((0, m - k), (0, n)) work
                          (larft E Backward Rowwise ((m - k, m), (0, n)) (0, k)
                             (slice TT (0, k) (0, k))
                             (gerq2 E ((m - k, m), (0, n)) (0, k) (transpose_view work)
                                (store a, scr))))))))"
proof -
  define A where "A = A_shape a"
  define m where "m = nrows A"
  define n where "n = ncols A"
  define k where "k = min m n"
  obtain work TT scr where lq_alloc: "gelqf_alloc E opts a = (work, TT, scr)"
    by (cases "gelqf_alloc E opts a") auto
  obtain work' TT' scr' where rq_alloc: "gerqf_alloc E opts' a = (work', TT', scr')"
    by (cases "gerqf_alloc E opts' a") auto
  have nb: "min (gelqf_nb opts) k = k" "min (gerqf_nb opts') k = k"
    using assms(1,2) by (simp_all add: k_def m_def n_def A_def)
  have tau: "\<not> tau_size a < k"
    using assms(3) unfolding k_def m_def n_def A_def by arith
  have "gelqf E opts a =
          (if tau_size a < k then Some (Inl (Precondition_violation, store a))
           else map_option (\<lambda>s. Inr (0, fst s))
                  (gelqf_loop E A k (min (gelqf_nb opts) k) TT work 0 (store a, scr)))"
    unfolding k_def m_def n_def A_def
    by (subst gelqf_result_cases) (simp only: lq_alloc fst_conv snd_conv)
  then have lq: "gelqf E opts a
              = map_option (\<lambda>s. Inr (0, fst s)) (gelqf_loop E A k k TT work 0 (store a, scr))"
    using nb tau by simp
  have "gerqf E opts' a =
          (if tau_size a < k then Some (Inl (Precondition_violation, store a))
           else map_option (\<lambda>s. Inr (0, fst s))
                  (gerqf_loop E A k (min (gerqf_nb opts') k) TT' work' 0 (store a, scr')))"
    unfolding k_def m_def n_def A_def
    by (subst gerqf_result_cases) (simp only: rq_alloc fst_conv snd_conv)
  then have rq: "gerqf E opts' a
              = map_option (\<lambda>s. Inr (0, fst s)) (gerqf_loop E A k k TT' work' 0 (store a, scr'))"
    using nb tau by simp
  have k: "k = min (nrows A) (ncols A)"
    by (simp add: k_def m_def n_def)
  have empty: "gelqf E opts a = Some (Inr (0, store a)) \<and> gerqf E opts' a = Some (Inr (0, store a))"
    if "k = 0"
    using that by (simp add: lq rq gelqf_loop_empty gerqf_loop_empty)
  have wide_lq: "gelqf E opts a
        = Some (Inr (0, fst (gelq2 E (full A) (0, k) (transpose_view work) (store a, scr))))"
    if "1 \<le> m \<and> m \<le> n"
  proof -
    have "1 \<le> k" and "\<not> k < nrows A" and "k = nrows A"
      using that by (simp_all add: k_def m_def)
    then show ?thesis
      using gelqf_single_panel [OF \<open>1 \<le> k\<close> k, of E TT work "(store a, scr)"]
      by (simp add: lq full_def Let_def)
  qed
  have wide_rq: "gerqf E opts' a
        = Some (Inr (0, fst (gerq2 E (full A) (0, k) (transpose_view work') (store a, scr'))))"
    if "1 \<le> m \<and> m \<le> n"
  proof -
    have "1 \<le> k" and "\<not> k < nrows A" and "k = nrows A"
      using that by (simp_all add: k_def m_def)
    then show ?thesis
      using gerqf_single_panel [OF \<open>1 \<le> k\<close> k, of E TT' work' "(store a, scr')"]
      by (simp add: rq full_def Let_def)
  qed
  have tall_lq: "gelqf E opts a
        = Some (Inr (0, fst (
            larfb E Right NoTrans Forward Rowwise ((0, k), (0, n))
              (slice TT (0, k) (0, k)) ((k, m), (0, n)) work
              (larft E Forward Rowwise ((0, k), (0, n)) (0, k) (slice TT (0, k) (0, k))
                 (gelq2 E ((0, k), (0, n)) (0, k) (transpose_view work) (store a, scr))))))"
    if "1 \<le> n \<and> n < m"
  proof -
    have "1 \<le> k" and "k < nrows A"
      using that by (simp_all add: k_def m_def)
    then show ?thesis
      using gelqf_single_panel [OF \<open>1 \<le> k\<close> k, of E TT work "(store a, scr)"]
      by (simp add: lq Let_def m_def n_def)
  qed
  have tall_rq: "gerqf E opts' a
        = Some (Inr (0, fst (
            larfb E Right NoTrans Backward Rowwise ((m - k, m), (0, n))
              (slice TT' (0, k) (0, k)) ((0, m - k), (0, n)) work'
              (larft E Backward Rowwise ((m - k, m), (0, n)) (0, k) (slice TT' (0, k) (0, k))
                 (gerq2 E ((m - k, m), (0, n)) (0, k) (transpose_view work') (store a, scr'))))))"
    if "1 \<le> n \<and> n < m"
  proof -
    have "1 \<le> k" and "k < nrows A"
      using that by (simp_all add: k_def m_def)
    then show ?thesis
      using gerqf_single_panel [OF \<open>1 \<le> k\<close> k, of E TT' work' "(store a, scr')"]
      by (simp add: rq Let_def m_def n_def)
  qed
  show ?thesis
    unfolding Let_def lq_alloc rq_alloc prod.case
      A_def [symmetric] m_def [symmetric] n_def [symmetric] k_def [symmetric]
    using empty wide_lq wide_rq tall_lq tall_rq by blast
qed


theorem single_panel_fast_path_witness:
  "min (nrows (2, 3)) (ncols (2, 3)) \<le> gelqf_nb GelqfOpts_default
   \<and> min (nrows (2, 3)) (ncols (2, 3)) \<le> gerqf_nb GerqfOpts_default
   \<and> gelqf (recording_env True) GelqfOpts_default \<lparr>A_shape = (2, 3), tau_size = 2, store = []\<rparr>
       = Some (Inr (0, [Call_gelq2 ((0, 2), (0, 3)) (0, 2) (0, 0)]))
   \<and> gerqf (recording_env True) GerqfOpts_default \<lparr>A_shape = (2, 3), tau_size = 2, store = []\<rparr>
       = Some (Inr (0, [Call_gerq2 ((0, 2), (0, 3)) (0, 2) (0, 0)]))"
  using single_panel_fast_path [of "\<lparr>A_shape = (2, 3), tau_size = 2, store = []\<rparr>"
      GelqfOpts_default GerqfOpts_default "recording_env True"]
  by code_simp

text \<open>
  Counterexample to C6 as stated, a matrix with more rows than columns: for a 3-by-2
  matrix and the default block size \<open>32 \<ge> k = 2\<close>, either driver calls the
  panel factorizer on two of the three rows and then \<open>larft\<close> and \<open>larfb\<close> on
  the third, which is not the panel factorizer alone on the 3-by-2 input.
\<close>

theorem single_panel_not_panel_alone_counterexample:
  "min (nrows (3, 2)) (ncols (3, 2)) \<le> gelqf_nb GelqfOpts_default
   \<and> min (nrows (3, 2)) (ncols (3, 2)) \<le> gerqf_nb GerqfOpts_default
   \<and> gelqf (recording_env True) GelqfOpts_default \<lparr>A_shape = (3, 2), tau_size = 2, store = []\<rparr>
       = Some (Inr (0,
           [Call_gelq2 ((0, 2), (0, 2)) (0, 2) (2, 2),
            Call_larft Forward Rowwise ((0, 2), (0, 2)) (0, 2) ((0, 2), (0, 2)),
            Call_larfb Right NoTrans Forward Rowwise ((0, 2), (0, 2)) ((0, 2), (0, 2))
              ((2, 3), (0, 2)) (2, 2)]))
   \<and> gelqf (recording_env True) GelqfOpts_default \<lparr>A_shape = (3, 2), tau_size = 2, store = []\<rparr>
       \<noteq> Some (Inr (0, fst (gelq2 (recording_env True) (full (3, 2)) (0, 2) (2, 2) ([], ()))))
   \<and> gerqf (recording_env True) GerqfOpts_default \<lparr>A_shape = (3, 2), tau_size = 2, store = []\<rparr>
       = Some (Inr (0,
           [Call_gerq2 ((1, 3), (0, 2)) (0, 2) (2, 2),
            Call_larft Backward Rowwise ((1, 3), (0, 2)) (0, 2) ((0, 2), (0, 2)),
            Call_larfb Right NoTrans Backward Rowwise ((1, 3), (0, 2)) ((0, 2), (0, 2))
              ((0, 1), (0, 2)) (2, 2)]))
   \<and> gerqf (recording_env True) GerqfOpts_default \<lparr>A_shape = (3, 2), tau_size = 2, store = []\<rparr>
       \<noteq> Some (Inr (0, fst (gerq2 (recording_env True) (full (3, 2)) (0, 2) (2, 2) ([], ()))))"
  by code_simp

text \<open>
  C5, as amended. The workspace queries depend on the shape of \<open>A\<close>, the
  block size and the element types only (not on the size of \<open>tau\<close>; the
  entries of \<open>A\<close> and \<open>tau\<close> are not even arguments). With
  \<open>nb' = min(opts.nb, min(m, n))\<close>, the \<open>nb'\<close>-by-\<open>nb'\<close> scratch for \<open>T\<close>
  is added exactly when \<open>m > nb'\<close> (rows remain outside the first panel) and
  \<open>T\<close> is the element type of \<open>matrixT_t\<close>: in every environment the size
  is then the size computed without it, \<open>+= WorkInfo(nb', nb')\<close>, and in the
  recording environment a size has that form in no other case.
\<close>

theorem worksize_adds_T_scratch:
  "adds_T_scratch (gelqf_worksize (recording_env b) isT A tau opts)
       (min (gelqf_nb opts) (min (nrows A) (ncols A)))
     = (isT \<and> nrows A > min (gelqf_nb opts) (min (nrows A) (ncols A)))
   \<and> adds_T_scratch (gerqf_worksize (recording_env b) isT A tau opts')
       (min (gerqf_nb opts') (min (nrows A) (ncols A)))
     = (isT \<and> nrows A > min (gerqf_nb opts') (min (nrows A) (ncols A)))
   \<and> gelqf_worksize E isT A tau opts =
       (if isT \<and> nrows A > min (gelqf_nb opts) (min (nrows A) (ncols A))
        then wi_plus E (gelqf_worksize E False A tau opts)
               (WorkInfo E (min (gelqf_nb opts) (min (nrows A) (ncols A)))
                  (min (gelqf_nb opts) (min (nrows A) (ncols A))))
        else gelqf_worksize E False A tau opts)
   \<and> gerqf_worksize E isT A tau opts' =
       (if isT \<and> nrows A > min (gerqf_nb opts') (min (nrows A) (ncols A))
        then wi_plus E (gerqf_worksize E False A tau opts')
               (WorkInfo E (min (gerqf_nb opts') (min (nrows A) (ncols A)))
                  (min (gerqf_nb opts') (min (nrows A) (ncols A))))
        else gerqf_worksize E False A tau opts')
   \<and> gelqf_worksize E isT A tau opts = gelqf_worksize E isT A tau' opts
   \<and> gerqf_worksize E isT A tau opts' = gerqf_worksize E isT A tau' opts'"
  by (simp add: gelqf_worksize_def gerqf_worksize_def recording_env_def Let_def)

text \<open>
  Counterexample to C5 as stated, a single panel with rows below it: for a 3-by-2
  matrix and the default block size, \<open>nb' = 2 = min(m, n)\<close>, so the panel
  count is one, and both queries still add the 2-by-2 scratch for \<open>T\<close>
  (which the driver uses on the third row).
\<close>

theorem worksize_T_scratch_single_panel_counterexample:
  "\<not> min (nrows (3, 2)) (ncols (3, 2))
       > min (gelqf_nb GelqfOpts_default) (min (nrows (3, 2)) (ncols (3, 2)))
   \<and> gelqf_worksize (recording_env True) True (3, 2) 2 GelqfOpts_default
       = WS_plus
           (WS_minMax (WS_transpose (WS_gelq2 ((0, 2), (0, 2)) (0, 2)))
              (WS_larfb Right NoTrans Forward Rowwise ((0, 2), (0, 2)) ((0, 2), (0, 2))
                 ((2, 3), (0, 2))))
           (WS_WorkInfo 2 2)
   \<and> adds_T_scratch (gelqf_worksize (recording_env True) True (3, 2) 2 GelqfOpts_default) 2
   \<and> adds_T_scratch (gerqf_worksize (recording_env True) True (3, 2) 2 GerqfOpts_default) 2"
  by code_simp


section \<open>Properties of herk\<close>

text \<open>
  C9. The shape check of the matrix-view \<open>herk\<close> is inverted with respect to the
  documented contract (\<open>C\<close> is \<open>n\<close>-by-\<open>n\<close>): a call that reaches it is
  rejected by it precisely when \<open>C\<close> is square of side \<open>n\<close>. So every call with
  a \<open>C\<close> of the documented shape ends in an error, and a \<open>C\<close> of any other
  shape passes the checks.
\<close>

theorem herk_shape_check_inverted:
  "(herk_checks uplo tr A C = Some Error_shape)
     = (tr \<noteq> Trans \<and> nrows C = ncols C \<and> nrows C = herk_n tr A)
   \<and> (if nrows C = herk_n tr A \<and> ncols C = herk_n tr A
      then herk_checks uplo tr A C \<noteq> None
      else herk_checks uplo tr A C = (if tr = Trans then Some Error_trans else None))"
  by (cases tr; cases uplo; auto simp: herk_checks_def Let_def)

end
